theory Spec2Isabelle
  imports Complex_Main "HOL-Library.Word" "HOL-Library.Sublist"
begin

section \<open>Python values, errors and strings\<close>

text \<open>
  The exceptions the modelled functions can raise. A function that can raise returns
  \<open>error + 'a\<close>, with \<open>Inl\<close> for the exception.
\<close>

datatype error =
  AssertionError | ValueError | IndexError | FileNotFoundError | LinAlgError | OSError

text \<open>Sequencing: an exception of the first step ends the computation.\<close>

definition ebind :: "error + 'a \<Rightarrow> ('a \<Rightarrow> error + 'b) \<Rightarrow> error + 'b" where
  "ebind m f = (case m of Inl e \<Rightarrow> Inl e | Inr x \<Rightarrow> f x)"

text \<open>
  The arguments \<open>convert_img_label\<close> is called with: frame ids (Python's unbounded
  ints) and strings.
\<close>

datatype pyval = PyInt int | PyStr string

definition digit_char :: "nat \<Rightarrow> char" where
  "digit_char d = char_of (48 + d)"

text \<open>Decimal digits of a natural number, most significant first, as \<open>str\<close> prints them.\<close>

fun str_nat :: "nat \<Rightarrow> string" where
  "str_nat n = (if n < 10 then [digit_char n] else str_nat (n div 10) @ [digit_char (n mod 10)])"

declare str_nat.simps [simp del]

definition str_int :: "int \<Rightarrow> string" where
  "str_int i = (if i < 0 then CHR ''-'' # str_nat (nat (- i)) else str_nat (nat i))"

fun py_str :: "pyval \<Rightarrow> string" where
  "py_str (PyInt i) = str_int i"
| "py_str (PyStr s) = s"

text \<open>
  Python's slice \<open>xs[:e]\<close>: a negative bound counts from the end, and a bound outside the
  list is clipped to it.
\<close>

definition slice_to :: "'a list \<Rightarrow> int \<Rightarrow> 'a list" where
  "slice_to xs e =
     (let n = int (length xs);
          j = (if e < 0 then max 0 (n + e) else min e n)
      in take (nat j) xs)"

text \<open>The value a string of decimal digits denotes.\<close>

definition digit_val :: "char \<Rightarrow> nat" where
  "digit_val c = of_char c - 48"

definition is_digit :: "char \<Rightarrow> bool" where
  "is_digit c = (48 \<le> (of_char c :: nat) \<and> (of_char c :: nat) \<le> 57)"

definition dec_value :: "string \<Rightarrow> nat" where
  "dec_value s = foldl (\<lambda>a c. 10 * a + digit_val c) 0 s"

section \<open>depth\_completion/utils.py\<close>

subsection \<open>convert\_img\_label\<close>

definition convert_img_label :: "pyval \<Rightarrow> string" where
  "convert_img_label name =
     (let default = ''0000000000'';
          name' = py_str name
      in slice_to default (- int (length name')) @ name')"

section \<open>Arrays and the file system\<close>

text \<open>
  A two-dimensional numpy array or matrix is the list of its rows. Entries are real
  numbers: the model computes in exact arithmetic where the program computes in
  IEEE double precision.
\<close>

type_synonym mat = "real list list"

fun dot :: "real list \<Rightarrow> real list \<Rightarrow> real" where
  "dot (x # xs) (y # ys) = x * y + dot xs ys"
| "dot _ _ = 0"

definition col :: "mat \<Rightarrow> nat \<Rightarrow> real list" where
  "col B j = map (\<lambda>r. r ! j) B"

definition ncols :: "mat \<Rightarrow> nat" where
  "ncols B = (case B of [] \<Rightarrow> 0 | r # _ \<Rightarrow> length r)"

text \<open>
  \<open>np.matmul\<close> on two matrices whose shapes agree. Every call site multiplies 4x4
  matrices (\<open>load_calib_file\<close> asserts the shape, \<open>get_gps_pose\<close> starts from
  \<open>np.eye(4)\<close>), so the shape error of \<open>np.matmul\<close> cannot arise there.
\<close>

definition mat_mul :: "mat \<Rightarrow> mat \<Rightarrow> mat" where
  "mat_mul A B = map (\<lambda>row. map (\<lambda>j. dot row (col B j)) [0..<ncols B]) A"

definition eye :: "nat \<Rightarrow> mat" where
  "eye n = map (\<lambda>i. map (\<lambda>j. if i = j then 1 else 0) [0..<n]) [0..<n]"

definition is_mat :: "nat \<Rightarrow> nat \<Rightarrow> mat \<Rightarrow> bool" where
  "is_mat r c M = (length M = r \<and> list_all (\<lambda>row. length row = c) M)"

text \<open>The matrix applied to a column vector.\<close>

definition mat_vec :: "mat \<Rightarrow> real list \<Rightarrow> real list" where
  "mat_vec A v = map (\<lambda>row. dot row v) A"

text \<open>
  What \<open>open\<close>, \<open>Image.open\<close> and \<open>os.path\<close> see: a path names a text file, a PNG
  image or a directory. A decoded image is the list of its pixel rows: 16-bit grey
  (PIL mode \<open>I;16\<close>, or \<open>I\<close> after conversion), 8-bit grey (mode \<open>L\<close>) or 8-bit RGB.
\<close>

datatype image =
  Gray16 "16 word list list"
| Gray8 "8 word list list"
| RGB8 "(8 word \<times> 8 word \<times> 8 word) list list"

datatype fobj = TextFile string | ImageFile image | Directory

type_synonym fs = "string \<rightharpoonup> fobj"

text \<open>\<open>os.path.join\<close> of two components, on POSIX.\<close>

definition path_join :: "string \<Rightarrow> string \<Rightarrow> string" where
  "path_join a b =
     (if b \<noteq> [] \<and> hd b = CHR ''/'' then b
      else if a = [] \<or> last a = CHR ''/'' then a @ b
      else a @ ''/'' @ b)"

definition read_text :: "fs \<Rightarrow> string \<Rightarrow> error + string" where
  "read_text files p =
     (case files p of
        Some (TextFile s) \<Rightarrow> Inr s
      | Some _ \<Rightarrow> Inl OSError
      | None \<Rightarrow> Inl FileNotFoundError)"

subsection \<open>String operations\<close>

text \<open>\<open>s.index(sub)\<close>: the position of the first occurrence, \<open>ValueError\<close> when there is none.\<close>

fun find_sub :: "string \<Rightarrow> string \<Rightarrow> nat option" where
  "find_sub sub [] = (if sub = [] then Some 0 else None)"
| "find_sub sub (c # cs) =
     (if prefix sub (c # cs) then Some 0 else map_option Suc (find_sub sub cs))"

definition str_index :: "string \<Rightarrow> string \<Rightarrow> error + nat" where
  "str_index s sub = (case find_sub sub s of None \<Rightarrow> Inl ValueError | Some i \<Rightarrow> Inr i)"

text \<open>\<open>s[a:b]\<close> for nonnegative bounds.\<close>

definition slice :: "'a list \<Rightarrow> nat \<Rightarrow> nat \<Rightarrow> 'a list" where
  "slice xs a b = take (b - a) (drop a xs)"

text \<open>\<open>s.split(c)\<close> for a one-character separator: empty pieces are kept.\<close>

fun split_on :: "char \<Rightarrow> string \<Rightarrow> string list" where
  "split_on c [] = [[]]"
| "split_on c (x # xs) =
     (if x = c then [] # split_on c xs
      else (case split_on c xs of [] \<Rightarrow> [[x]] | w # ws \<Rightarrow> (x # w) # ws))"

text \<open>The ASCII characters Python counts as whitespace.\<close>

definition is_space :: "char \<Rightarrow> bool" where
  "is_space c = (c \<in> set [CHR '' '', CHR 0x09, CHR 0x0A, CHR 0x0B, CHR 0x0C, CHR 0x0D,
                           CHR 0x1C, CHR 0x1D, CHR 0x1E, CHR 0x1F])"

text \<open>
  \<open>s.split()\<close>: the maximal runs of non-whitespace characters. The first argument
  holds the current run, reversed.
\<close>

fun split_ws_from :: "string \<Rightarrow> string \<Rightarrow> string list" where
  "split_ws_from acc [] = (if acc = [] then [] else [rev acc])"
| "split_ws_from acc (c # cs) =
     (if is_space c then (if acc = [] then split_ws_from [] cs else rev acc # split_ws_from [] cs)
      else split_ws_from (c # acc) cs)"

definition split_ws :: "string \<Rightarrow> string list" where
  "split_ws s = split_ws_from [] s"

text \<open>Running a list of fallible steps, stopping at the first exception.\<close>

fun sequence :: "(error + 'a) list \<Rightarrow> error + 'a list" where
  "sequence [] = Inr []"
| "sequence (r # rs) = ebind r (\<lambda>x. ebind (sequence rs) (\<lambda>xs. Inr (x # xs)))"

text \<open>
  \<open>np.mat(text, dtype=np.float64)\<close>, numpy's conversion of a string to a matrix: brackets
  are dropped, \<open>;\<close> separates rows, \<open>,\<close> and whitespace separate entries, each entry is
  read by \<open>ast.literal_eval\<close>, and all rows must have the length of the first.
  \<open>literal_eval\<close> is Python's own and is a parameter here: \<open>lit\<close> gives the number a
  token denotes, or the exception it raises.
\<close>

definition mat_row_tokens :: "string \<Rightarrow> string list" where
  "mat_row_tokens row = concat (map split_ws (split_on CHR '','' row))"

definition np_mat :: "(string \<Rightarrow> error + real) \<Rightarrow> string \<Rightarrow> error + mat" where
  "np_mat lit txt =
     (let data = filter (\<lambda>c. c \<noteq> CHR ''['' \<and> c \<noteq> CHR '']'') txt;
          rows = split_on CHR '';'' data
      in ebind (sequence (map (\<lambda>row. sequence (map lit (mat_row_tokens row))) rows))
           (\<lambda>m. if list_all (\<lambda>r. length r = ncols m) m then Inr m else Inl ValueError))"

text \<open>Cutting a list into rows of \<open>c\<close> entries; the first argument bounds the number of rows.\<close>

fun chunks :: "nat \<Rightarrow> nat \<Rightarrow> 'a list \<Rightarrow> 'a list list" where
  "chunks 0 c xs = []"
| "chunks (Suc r) c xs = take c xs # chunks r c (drop c xs)"

text \<open>\<open>M.reshape((r, c))\<close>: row-major, \<open>ValueError\<close> unless the sizes agree.\<close>

definition reshape :: "nat \<Rightarrow> nat \<Rightarrow> mat \<Rightarrow> error + mat" where
  "reshape r c M =
     (if length (concat M) = r * c then Inr (chunks r c (concat M)) else Inl ValueError)"

text \<open>A reader of signed decimal integer tokens, an instance of \<open>lit\<close> for examples.\<close>

definition int_literal :: "string \<Rightarrow> error + real" where
  "int_literal tok =
     (let (neg, ds) = (case tok of c # cs \<Rightarrow> if c = CHR ''-'' then (True, cs) else (False, tok)
                                 | [] \<Rightarrow> (False, []))
      in if ds = [] \<or> \<not> list_all is_digit ds then Inl ValueError
         else Inr (if neg then - real (dec_value ds) else real (dec_value ds)))"

section \<open>supervised\_depth\_correction/data.py: KITTIRawPoses\<close>

subsection \<open>gps\_to\_ecef\<close>

text \<open>
  The call with scalar arguments and \<open>zero_origin=False\<close>, as \<open>get_gps_pose\<close> makes it.
  The line computing \<open>z\<close> from the latitude is commented out in the source; \<open>z\<close> is the
  altitude.
\<close>

definition gps_to_ecef :: "real \<Rightarrow> real \<Rightarrow> real \<Rightarrow> real \<times> real \<times> real" where
  "gps_to_ecef lat lon alt =
     (let rad_lat = lat * (pi / 180);
          rad_lon = lon * (pi / 180);
          a = 6378137;
          finv = 298.257223563;
          f = 1 / finv;
          e2 = 1 - (1 - f) * (1 - f);
          v = a / sqrt (1 - e2 * sin rad_lat * sin rad_lat);
          x = (v + alt) * cos rad_lat * cos rad_lon;
          y = (v + alt) * cos rad_lat * sin rad_lon;
          z = alt
      in (x, y, z))"

text \<open>
  The call on arrays (one entry per fix): the arithmetic is elementwise, and
  \<open>zero_origin=True\<close> subtracts the first entry of each coordinate, which raises
  \<open>IndexError\<close> on empty arrays. Arrays of different lengths do not broadcast.
\<close>

definition gps_to_ecef_arrays ::
  "real list \<Rightarrow> real list \<Rightarrow> real list \<Rightarrow> bool \<Rightarrow> error + (real list \<times> real list \<times> real list)" where
  "gps_to_ecef_arrays lat lon alt zero_origin =
     (if length lat \<noteq> length lon \<or> length lat \<noteq> length alt then Inl ValueError
      else
        let pts = map (\<lambda>(la, lo, al). gps_to_ecef la lo al) (zip lat (zip lon alt));
            x = map fst pts;
            y = map (fst \<circ> snd) pts;
            z = map (snd \<circ> snd) pts
        in if zero_origin then
             (case pts of [] \<Rightarrow> Inl IndexError
              | _ \<Rightarrow> Inr (map (\<lambda>v. v - hd x) x, map (\<lambda>v. v - hd y) y, map (\<lambda>v. v - hd z) z))
           else Inr (x, y, z))"

subsection \<open>load\_calib\_file and get\_calibrations\<close>

text \<open>\<open>np.bmat([[rotation, translation], [[[0, 0, 0, 1]]]])\<close>.\<close>

definition bmat :: "mat \<Rightarrow> mat \<Rightarrow> mat" where
  "bmat rotation translation = map (\<lambda>(r, t). r @ t) (zip rotation translation) @ [[0, 0, 0, 1]]"

definition load_calib_file ::
  "(string \<Rightarrow> error + real) \<Rightarrow> fs \<Rightarrow> string \<Rightarrow> string \<Rightarrow> error + mat" where
  "load_calib_file lit files path file =
     (let fpath = path_join path file in
      ebind (read_text files fpath) (\<lambda>s.
      ebind (str_index s ''R:'') (\<lambda>i_r.
      ebind (str_index s ''T:'') (\<lambda>i_t.
      ebind (str_index (drop (i_t + 2) s) [CHR 0x0A]) (\<lambda>k.
      let i_t_end = i_t + 2 + k in
      ebind (np_mat lit (slice s (i_r + 2) i_t)) (\<lambda>rm.
      ebind (reshape 3 3 rm) (\<lambda>rotation.
      ebind (np_mat lit (slice s (i_t + 2) i_t_end)) (\<lambda>tm.
      ebind (reshape 3 1 tm) (\<lambda>translation.
      let transform = bmat rotation translation in
      if is_mat 4 4 transform then Inr transform else Inl AssertionError)))))))))"

definition get_calibrations :: "(string \<Rightarrow> error + real) \<Rightarrow> fs \<Rightarrow> string \<Rightarrow> error + mat" where
  "get_calibrations lit files path =
     ebind (load_calib_file lit files path ''calib_imu_to_velo.txt'') (\<lambda>TrImuToVelo.
     ebind (load_calib_file lit files path ''calib_velo_to_cam.txt'') (\<lambda>TrVeloToCam.
     let TrImuToCam0 = mat_mul TrImuToVelo TrVeloToCam in Inr TrImuToCam0))"

text \<open>
  The conversion as the specification words it, for comparison with \<open>gps_to_ecef\<close>: the
  full WGS84 formulas, with \<open>z\<close> computed from the latitude.
\<close>

definition wgs84_ecef :: "real \<Rightarrow> real \<Rightarrow> real \<Rightarrow> real \<times> real \<times> real" where
  "wgs84_ecef lat lon alt =
     (let a = 6378137;
          f = 1 / 298.257223563;
          e2 = 1 - (1 - f)\<^sup>2;
          la = lat * (pi / 180);
          lo = lon * (pi / 180);
          v = a / sqrt (1 - e2 * (sin la)\<^sup>2)
      in ((v + alt) * cos la * cos lo, (v + alt) * cos la * sin lo, (v * (1 - e2) + alt) * sin la))"

subsection \<open>get\_gps\_pose and get\_cam\_poses\<close>

text \<open>
  \<open>Rotation.from_euler('xyz', [roll, pitch, yaw]).as_matrix()\<close>: scipy's extrinsic
  rotations about the fixed x, y and z axes, in this order.
\<close>

definition rot_x :: "real \<Rightarrow> mat" where
  "rot_x a = [[1, 0, 0], [0, cos a, - sin a], [0, sin a, cos a]]"

definition rot_y :: "real \<Rightarrow> mat" where
  "rot_y a = [[cos a, 0, sin a], [0, 1, 0], [- sin a, 0, cos a]]"

definition rot_z :: "real \<Rightarrow> mat" where
  "rot_z a = [[cos a, - sin a, 0], [sin a, cos a, 0], [0, 0, 1]]"

definition from_euler_xyz :: "real \<Rightarrow> real \<Rightarrow> real \<Rightarrow> mat" where
  "from_euler_xyz roll pitch yaw = mat_mul (rot_z yaw) (mat_mul (rot_y pitch) (rot_x roll))"

text \<open>\<open>np.eye(4)\<close> with \<open>R\<close> written to \<open>[:3, :3]\<close> and \<open>t\<close> to \<open>[:3, 3]\<close>.\<close>

definition pose_of :: "mat \<Rightarrow> real list \<Rightarrow> mat" where
  "pose_of R t = map (\<lambda>(r, v). r @ [v]) (zip R t) @ [[0, 0, 0, 1]]"

text \<open>
  The argument is the row of numbers \<open>np.genfromtxt\<close> reads from one oxts file. Unpacking
  \<open>gps_data[:3]\<close> and \<open>gps_data[3:6]\<close> into three names each raises \<open>ValueError\<close> when
  the row has fewer than six numbers.
\<close>

definition get_gps_pose :: "real list \<Rightarrow> error + mat" where
  "get_gps_pose gps_data =
     (if length gps_data < 6 then Inl ValueError
      else
        let lat = gps_data ! 0; lon = gps_data ! 1; alt = gps_data ! 2;
            roll = gps_data ! 3; pitch = gps_data ! 4; yaw = gps_data ! 5;
            R = from_euler_xyz roll pitch yaw;
            (x, y, z) = gps_to_ecef lat lon alt
        in Inr (pose_of R [x, y, z]))"

text \<open>
  \<open>np.linalg.inv\<close>, by its specification in exact arithmetic: the inverse of a
  non-singular square matrix, computed here by cofactors, and \<open>LinAlgError\<close> for a
  singular or non-square one.
\<close>

definition del :: "nat \<Rightarrow> 'a list \<Rightarrow> 'a list" where
  "del i xs = take i xs @ drop (Suc i) xs"

definition minor :: "mat \<Rightarrow> nat \<Rightarrow> nat \<Rightarrow> mat" where
  "minor M i j = map (del j) (del i M)"

fun det_n :: "nat \<Rightarrow> mat \<Rightarrow> real" where
  "det_n 0 M = 1"
| "det_n (Suc n) M = (\<Sum>j\<leftarrow>[0..<Suc n]. (- 1) ^ j * (M ! 0 ! j) * det_n n (minor M 0 j))"

definition det :: "mat \<Rightarrow> real" where
  "det M = det_n (length M) M"

definition adjugate :: "mat \<Rightarrow> mat" where
  "adjugate M =
     (let n = length M
      in map (\<lambda>i. map (\<lambda>j. (- 1) ^ (i + j) * det (minor M j i)) [0..<n]) [0..<n])"

definition mat_scale :: "real \<Rightarrow> mat \<Rightarrow> mat" where
  "mat_scale c M = map (map (\<lambda>x. c * x)) M"

definition linalg_inv :: "mat \<Rightarrow> error + mat" where
  "linalg_inv M =
     (if \<not> is_mat (length M) (length M) M \<or> det M = 0 then Inl LinAlgError
      else Inr (mat_scale (1 / det M) (adjugate M)))"

text \<open>
  The first argument is \<open>self.gps2cam_transform\<close>, the second the rows read from the
  files \<open>oxts/data/*.txt\<close> in sorted order. With no file, \<open>np.matmul\<close> of the empty
  array and the 1x4x4 transform raises \<open>ValueError\<close>.
\<close>

definition get_cam_poses :: "mat \<Rightarrow> real list list \<Rightarrow> bool \<Rightarrow> error + mat list" where
  "get_cam_poses gps2cam_transform oxts zero_origin =
     ebind (sequence (map get_gps_pose oxts)) (\<lambda>gps_poses.
     if gps_poses = [] then Inl ValueError
     else
       let poses = map (\<lambda>pose. mat_mul pose gps2cam_transform) gps_poses
       in if zero_origin then
            ebind (linalg_inv (poses ! 0)) (\<lambda>Tr_inv. Inr (map (\<lambda>pose. mat_mul Tr_inv pose) poses))
          else Inr poses)"

text \<open>
  The relative transform between frames \<open>i\<close> and \<open>j\<close> of a pose sequence: the inverse of
  pose \<open>i\<close> times pose \<open>j\<close>.
\<close>

definition relative_transform :: "mat list \<Rightarrow> nat \<Rightarrow> nat \<Rightarrow> error + mat" where
  "relative_transform poses i j =
     ebind (linalg_inv (poses ! i)) (\<lambda>inv_i. Inr (mat_mul inv_i (poses ! j)))"

section \<open>Multi-dimensional arrays\<close>

text \<open>
  A numpy array or torch tensor of any rank, as the nesting of its entries: a scalar or
  the list of its sub-arrays along the first axis.
\<close>

datatype 'a nd = El 'a | Nd "'a nd list"

fun shape :: "'a nd \<Rightarrow> nat list" where
  "shape (El x) = []"
| "shape (Nd []) = [0]"
| "shape (Nd (x # xs)) = Suc (length xs) # shape x"

definition nd1 :: "'a list \<Rightarrow> 'a nd" where
  "nd1 xs = Nd (map El xs)"

definition nd2 :: "'a list list \<Rightarrow> 'a nd" where
  "nd2 xss = Nd (map nd1 xss)"

definition nd3 :: "'a list list list \<Rightarrow> 'a nd" where
  "nd3 xsss = Nd (map nd2 xsss)"

text \<open>\<open>a[None]\<close>: a new first axis of length one.\<close>

definition add_axis :: "'a nd \<Rightarrow> 'a nd" where
  "add_axis a = Nd [a]"

text \<open>\<open>torch.squeeze(t, 0)\<close>: the first axis is removed when its length is one.\<close>

fun squeeze0 :: "'a nd \<Rightarrow> 'a nd" where
  "squeeze0 (Nd [x]) = x"
| "squeeze0 t = t"

text \<open>\<open>np.squeeze(a)\<close>: every axis of length one is removed.\<close>

fun np_squeeze :: "'a nd \<Rightarrow> 'a nd" where
  "np_squeeze (El x) = El x"
| "np_squeeze (Nd xs) = (case map np_squeeze xs of [y] \<Rightarrow> y | ys \<Rightarrow> Nd ys)"

text \<open>The rows of an array of rank two.\<close>

fun el_of :: "'a nd \<Rightarrow> 'a option" where
  "el_of (El x) = Some x"
| "el_of (Nd xs) = None"

fun row_of :: "'a nd \<Rightarrow> 'a list option" where
  "row_of (El x) = None"
| "row_of (Nd xs) = those (map el_of xs)"

fun rows_of :: "'a nd \<Rightarrow> 'a list list option" where
  "rows_of (El x) = None"
| "rows_of (Nd xs) = those (map row_of xs)"

section \<open>supervised\_depth\_correction/data.py: KITTIDepthSelection\<close>

text \<open>The format \<open>%010d\<close>: the sign, then the digits zero-padded to ten characters in all.\<close>

definition fmt_010d :: "int \<Rightarrow> string" where
  "fmt_010d i =
     (if i < 0
      then CHR ''-'' # replicate (9 - length (str_nat (nat (- i)))) CHR ''0'' @ str_nat (nat (- i))
      else replicate (10 - length (str_nat (nat i))) CHR ''0'' @ str_nat (nat i))"

definition open_image :: "fs \<Rightarrow> string \<Rightarrow> error + image" where
  "open_image files p =
     (case files p of
        Some (ImageFile im) \<Rightarrow> Inr im
      | Some _ \<Rightarrow> Inl OSError
      | None \<Rightarrow> Inl FileNotFoundError)"

text \<open>
  \<open>np.array(image, dtype=int)\<close>, as rows of pixels of channels: a grey image gives one
  channel per pixel (numpy's array of rank two), an RGB image three.
\<close>

fun np_array_int :: "image \<Rightarrow> int list list list" where
  "np_array_int (Gray16 rows) = map (map (\<lambda>p. [uint p])) rows"
| "np_array_int (Gray8 rows) = map (map (\<lambda>p. [uint p])) rows"
| "np_array_int (RGB8 rows) = map (map (\<lambda>(r, g, b). [uint r, uint g, uint b])) rows"

text \<open>
  \<open>a.reshape([r, c, 1])\<close> of the array with the given entries in row-major order.
\<close>

definition reshape_rc1 :: "nat \<Rightarrow> nat \<Rightarrow> 'a list \<Rightarrow> error + 'a list list list" where
  "reshape_rc1 r c vals =
     (if length vals = r * c then Inr (map (map (\<lambda>v. [v])) (chunks r c vals)) else Inl ValueError)"

text \<open>The file \<open>get_depth\<close> opens for frame \<open>i\<close>.\<close>

definition depth_file :: "string \<Rightarrow> string \<Rightarrow> string \<Rightarrow> int \<Rightarrow> bool \<Rightarrow> string" where
  "depth_file path subseq_name image_name i gt =
     (let depth_label = (if gt then ''groundtruth_depth'' else ''velodyne_raw'')
      in path_join (path_join path depth_label)
           (subseq_name @ ''_'' @ depth_label @ ''_'' @ fmt_010d i @ ''_'' @ image_name @ ''.png''))"

text \<open>
  \<open>get_depth\<close>, with the fields \<open>path\<close>, \<open>subseq\<close> and \<open>image\<close> of the object as
  arguments. \<open>np.max\<close> of an array without entries raises \<open>ValueError\<close>. Integer pixel
  values and depths are both real numbers here.
\<close>

definition get_depth ::
  "fs \<Rightarrow> string \<Rightarrow> string \<Rightarrow> string \<Rightarrow> int \<Rightarrow> bool \<Rightarrow> bool \<Rightarrow> error + real list list list" where
  "get_depth files path subseq_name image_name i gt to_depth_map =
     ebind (open_image files (depth_file path subseq_name image_name i gt)) (\<lambda>im.
       let depth = np_array_int im;
           r = length depth;
           c = (case depth of [] \<Rightarrow> 0 | row # _ \<Rightarrow> length row);
           vals = concat (concat depth)
       in if vals = [] then Inl ValueError
          else if \<not> Max (set vals) > 255 then Inl AssertionError
          else
            let depth' =
                  (if to_depth_map
                   then map (\<lambda>v. if real_of_int v / 256 = 0 then - 1 else real_of_int v / 256) vals
                   else map real_of_int vals)
            in reshape_rc1 r c depth')"

section \<open>depth\_completion/utils.py: saving predictions\<close>

text \<open>\<open>os.path.dirname\<close> on POSIX, and whether the directory it names exists.\<close>

definition dirname :: "string \<Rightarrow> string" where
  "dirname p =
     (let head = rev (dropWhile (\<lambda>c. c \<noteq> CHR ''/'') (rev p))
      in if head \<noteq> [] \<and> \<not> list_all (\<lambda>c. c = CHR ''/'') head
         then rev (dropWhile (\<lambda>c. c = CHR ''/'') (rev head)) else head)"

definition dir_ok :: "fs \<Rightarrow> string \<Rightarrow> bool" where
  "dir_ok files d = (list_all (\<lambda>c. c = CHR ''/'') d \<or> files d = Some Directory)"

definition isdir :: "fs \<Rightarrow> string \<Rightarrow> bool" where
  "isdir files p = (files p = Some Directory)"

definition os_mkdir :: "fs \<Rightarrow> string \<Rightarrow> error + fs" where
  "os_mkdir files p =
     (if files p \<noteq> None then Inl OSError
      else if \<not> dir_ok files (dirname p) then Inl FileNotFoundError
      else Inr (files(p \<mapsto> Directory)))"

definition os_remove :: "fs \<Rightarrow> string \<Rightarrow> error + fs" where
  "os_remove files p =
     (case files p of
        None \<Rightarrow> Inl FileNotFoundError
      | Some Directory \<Rightarrow> Inl OSError
      | Some _ \<Rightarrow> Inr (files(p := None)))"

text \<open>
  \<open>astype(np.uint16)\<close> of a float: the fraction is dropped and the integer is reduced
  modulo \<open>2^16\<close>.
\<close>

definition astype_uint16 :: "real \<Rightarrow> 16 word" where
  "astype_uint16 v = word_of_int (if 0 \<le> v then \<lfloor>v\<rfloor> else \<lceil>v\<rceil>)"

text \<open>
  \<open>Image.fromarray(a, mode='I;16').convert(mode='I')\<close> of an array of rank two: the 16-bit
  grey image of its rows. Arrays of another rank are outside the model, which raises
  for them.
\<close>

definition fromarray_I16 :: "16 word nd \<Rightarrow> error + image" where
  "fromarray_I16 a = (case rows_of a of Some rows \<Rightarrow> Inr (Gray16 rows) | None \<Rightarrow> Inl ValueError)"

text \<open>
  \<open>Image.save(path)\<close>: the format is chosen by the extension, and the model stores PNG
  files only.
\<close>

definition image_save :: "fs \<Rightarrow> string \<Rightarrow> image \<Rightarrow> error + fs" where
  "image_save files p im =
     (if \<not> suffix ''.png'' p then Inl ValueError
      else if files p = Some Directory then Inl OSError
      else if \<not> dir_ok files (dirname p) then Inl FileNotFoundError
      else Inr (files(p \<mapsto> ImageFile im)))"

text \<open>The image \<open>data_pil\<close> that \<open>save_gradslam_image\<close> builds from the tensor.\<close>

definition data_pil :: "real nd \<Rightarrow> error + image" where
  "data_pil img =
     (let img1 = squeeze0 img;
          img2 = squeeze0 img1;
          img3 = map_nd (\<lambda>v. v * 2 ^ 8) img2
      in fromarray_I16 (np_squeeze (map_nd astype_uint16 img3)))"

definition save_gradslam_image :: "fs \<Rightarrow> real nd \<Rightarrow> string \<Rightarrow> error + fs" where
  "save_gradslam_image files img img_path =
     ebind (data_pil img) (\<lambda>im. image_save files img_path im)"

subsection \<open>complete\_sequence\<close>

text \<open>
  What \<open>complete_sequence\<close> uses of its argument \<open>dataset\<close>: \<open>len(dataset)\<close>,
  \<open>dataset.ids\<close> and \<open>dataset[i]\<close>, which may read files and gives colors, depths,
  intrinsics and poses.
\<close>

record dataset =
  ds_len :: nat
  ds_ids :: "pyval list"
  ds_getitem :: "fs \<Rightarrow> nat \<Rightarrow> error + (real nd \<times> real nd \<times> real nd \<times> real nd)"

text \<open>The network: a function of the depths and the mask, which may raise.\<close>

type_synonym net = "real nd \<Rightarrow> real nd \<Rightarrow> error + real nd"

text \<open>
  The state of a run: the file system, and the arguments of the calls of the network so
  far, oldest first.
\<close>

type_synonym world = "fs \<times> (real nd \<times> real nd) list"

fun mkdirs :: "fs \<Rightarrow> string \<Rightarrow> string list \<Rightarrow> error + (fs \<times> string)" where
  "mkdirs files path_to_save [] = Inr (files, path_to_save)"
| "mkdirs files path_to_save (subfold # rest) =
     (let p = path_join path_to_save subfold
      in if \<not> isdir files p then ebind (os_mkdir files p) (\<lambda>files'. mkdirs files' p rest)
         else mkdirs files p rest)"

definition list_index :: "'a list \<Rightarrow> nat \<Rightarrow> error + 'a" where
  "list_index xs i = (if i < length xs then Inr (xs ! i) else Inl IndexError)"

text \<open>The body of the loop of \<open>complete_sequence\<close>, for one \<open>i\<close>.\<close>

definition complete_item :: "net \<Rightarrow> dataset \<Rightarrow> string \<Rightarrow> bool \<Rightarrow> world \<Rightarrow> nat \<Rightarrow> error + world" where
  "complete_item model dataset path_to_save replace w i =
     (let (files, calls) = w in
      ebind (list_index (ds_ids dataset) i) (\<lambda>name.
      let img_name = convert_img_label name @ ''.png'';
          img_path = path_join path_to_save img_name
      in if files img_path \<noteq> None \<and> \<not> replace then Inr (files, calls)
         else
           ebind (if files img_path \<noteq> None \<and> replace then os_remove files img_path else Inr files)
             (\<lambda>files1.
           ebind (ds_getitem dataset files1 i) (\<lambda>(colors, depths, intrinsics, poses).
           let mask = map_nd (\<lambda>v. if 0 < v then 1 else 0) depths in
           ebind (model depths mask) (\<lambda>pred.
           ebind (save_gradslam_image files1 pred img_path) (\<lambda>files2.
           Inr (files2, calls @ [(depths, mask)])))))))"

fun run_items :: "net \<Rightarrow> dataset \<Rightarrow> string \<Rightarrow> bool \<Rightarrow> world \<Rightarrow> nat list \<Rightarrow> error + world" where
  "run_items model dataset path_to_save replace w [] = Inr w"
| "run_items model dataset path_to_save replace w (i # rest) =
     ebind (complete_item model dataset path_to_save replace w i)
       (\<lambda>w'. run_items model dataset path_to_save replace w' rest)"

definition complete_sequence ::
  "net \<Rightarrow> dataset \<Rightarrow> string \<Rightarrow> string \<Rightarrow> string \<Rightarrow> bool \<Rightarrow> world \<Rightarrow> error + world" where
  "complete_sequence model dataset path_to_save subseq_name camera replace w =
     (let (files, calls) = w;
          image_folder = (if camera = ''left'' then ''image_02'' else ''image_03'');
          subfolders = [subseq_name, ''proj_depth'', ''prediction'', image_folder]
      in ebind (mkdirs files path_to_save subfolders) (\<lambda>(files1, dir).
         run_items model dataset dir replace (files1, calls) [0..<ds_len dataset]))"

section \<open>Properties\<close>

subsection \<open>Decimal strings\<close>

lemma str_nat_nonempty: "str_nat n \<noteq> []"
  by (subst str_nat.simps) simp

lemma length_str_nat_le: "n < 10 ^ k \<Longrightarrow> 0 < k \<Longrightarrow> length (str_nat n) \<le> k"
proof (induction n arbitrary: k rule: str_nat.induct)
  case (1 n)
  show ?case
  proof (cases "n < 10")
    case True
    then have "length (str_nat n) = 1" by (subst str_nat.simps) simp
    with \<open>0 < k\<close> show ?thesis by simp
  next
    case False
    then obtain k' where k: "k = Suc k'" using \<open>0 < k\<close> by (cases k) auto
    have "k' \<noteq> 0" using False "1.prems"(1) k by (cases k') auto
    moreover have "n div 10 < 10 ^ k'" using "1.prems"(1) k
      by (simp add: less_mult_imp_div_less mult.commute)
    ultimately have "length (str_nat (n div 10)) \<le> k'" using "1.IH" [OF False, of k'] by simp
    moreover have "length (str_nat n) = Suc (length (str_nat (n div 10)))"
      using False by (subst str_nat.simps) simp
    ultimately show ?thesis using k by simp
  qed
qed

lemma digit_val_digit_char: "d < 10 \<Longrightarrow> digit_val (digit_char d) = d"
  by (simp add: digit_val_def digit_char_def)

lemma is_digit_digit_char: "d < 10 \<Longrightarrow> is_digit (digit_char d)"
  by (simp add: is_digit_def digit_char_def)

lemma dec_value_append1: "dec_value (s @ [c]) = 10 * dec_value s + digit_val c"
  by (simp add: dec_value_def)

lemma dec_value_str_nat: "dec_value (str_nat n) = n"
proof (induction n rule: str_nat.induct)
  case (1 n)
  show ?case
  proof (cases "n < 10")
    case True
    then show ?thesis by (subst str_nat.simps) (simp add: dec_value_def digit_val_digit_char)
  next
    case False
    then have "dec_value (str_nat n) = 10 * dec_value (str_nat (n div 10)) + n mod 10"
      by (subst str_nat.simps) (simp add: dec_value_append1 digit_val_digit_char)
    with "1.IH" [OF False] show ?thesis by simp
  qed
qed

lemma digits_str_nat: "\<forall>c \<in> set (str_nat n). is_digit c"
proof (induction n rule: str_nat.induct)
  case (1 n)
  show ?case
  proof (cases "n < 10")
    case True
    then show ?thesis by (subst str_nat.simps) (simp add: is_digit_digit_char)
  next
    case False
    with "1.IH" show ?thesis by (subst str_nat.simps) (simp add: is_digit_digit_char)
  qed
qed

lemma dec_value_zeros: "dec_value (replicate k CHR ''0'' @ s) = dec_value s"
proof (induction k)
  case 0
  then show ?case by simp
next
  case (Suc k)
  have "foldl (\<lambda>a c. 10 * a + digit_val c) 0 (CHR ''0'' # replicate k CHR ''0'' @ s)
      = foldl (\<lambda>a c. 10 * a + digit_val c) 0 (replicate k CHR ''0'' @ s)"
    by (simp add: digit_val_def)
  with Suc show ?case by (simp add: dec_value_def)
qed

subsection \<open>convert\_img\_label\<close>

lemma convert_img_label_pad:
  "py_str v \<noteq> [] \<Longrightarrow> length (py_str v) \<le> 10 \<Longrightarrow>
   convert_img_label v = replicate (10 - length (py_str v)) CHR ''0'' @ py_str v"
proof -
  assume ne: "py_str v \<noteq> []" and le: "length (py_str v) \<le> 10"
  have z: "''0000000000'' = replicate 10 CHR ''0''"
    by (simp add: numeral_eq_Suc)
  have "slice_to ''0000000000'' (- int (length (py_str v)))
      = take (10 - length (py_str v)) (replicate 10 CHR ''0'')"
    unfolding z using le ne
    by (auto simp add: slice_to_def Let_def nat_diff_distrib' max_def)
  then show ?thesis using le
    by (simp add: convert_img_label_def Let_def min_def)
qed

lemma convert_img_label_long:
  "10 < length (py_str v) \<Longrightarrow> convert_img_label v = py_str v"
  by (simp add: convert_img_label_def Let_def slice_to_def)

text \<open>
  Claim C8. For an input whose string form has between 1 and 10 characters,
  \<open>convert_img_label\<close> returns the 10-character string that left-pads it with zeros;
  for a nonnegative integer of at most 10 decimal digits the result is the 10-digit
  decimal label of that integer (ten digit characters whose decimal value is the
  integer); an input longer than 10 characters is returned unchanged.
\<close>

theorem convert_img_label_spec:
  "(1 \<le> length (py_str v) \<and> length (py_str v) \<le> 10 \<longrightarrow>
      convert_img_label v = replicate (10 - length (py_str v)) CHR ''0'' @ py_str v
      \<and> length (convert_img_label v) = 10)
   \<and> (0 \<le> n \<and> n < 10 ^ 10 \<longrightarrow>
      convert_img_label (PyInt n) = replicate (10 - length (str_int n)) CHR ''0'' @ str_int n
      \<and> length (convert_img_label (PyInt n)) = 10
      \<and> (\<forall>c \<in> set (convert_img_label (PyInt n)). is_digit c)
      \<and> int (dec_value (convert_img_label (PyInt n))) = n)
   \<and> (10 < length (py_str w) \<longrightarrow> convert_img_label w = py_str w)"
proof (intro conjI impI)
  assume a: "1 \<le> length (py_str v) \<and> length (py_str v) \<le> 10"
  then have "py_str v \<noteq> []" by auto
  with a show p: "convert_img_label v = replicate (10 - length (py_str v)) CHR ''0'' @ py_str v"
    by (simp add: convert_img_label_pad)
  show "length (convert_img_label v) = 10"
    using a by (simp add: p)
next
  assume b: "0 \<le> n \<and> n < 10 ^ 10"
  then have "nat n < 10 ^ 10"
    by (metis nat_less_iff of_nat_numeral of_nat_power)
  then have len: "length (str_nat (nat n)) \<le> 10"
    by (rule length_str_nat_le) simp
  have s: "str_int n = str_nat (nat n)" using b by (simp add: str_int_def)
  have le: "length (py_str (PyInt n)) \<le> 10" using len s by simp
  show q: "convert_img_label (PyInt n) = replicate (10 - length (str_int n)) CHR ''0'' @ str_int n"
    using convert_img_label_pad [OF _ le] s str_nat_nonempty by simp
  show "length (convert_img_label (PyInt n)) = 10"
    using len s by (simp add: q)
  show "\<forall>c \<in> set (convert_img_label (PyInt n)). is_digit c"
    using digits_str_nat [of "nat n"] by (auto simp add: q s is_digit_def)
  show "int (dec_value (convert_img_label (PyInt n))) = n"
    using b by (simp add: q s dec_value_zeros dec_value_str_nat)
next
  assume "10 < length (py_str w)"
  then show "convert_img_label w = py_str w"
    by (rule convert_img_label_long)
qed

theorem convert_img_label_spec_witness:
  "convert_img_label (PyStr ''abc'') = ''0000000abc''
   \<and> convert_img_label (PyInt 42) = ''0000000042''
   \<and> dec_value (convert_img_label (PyInt 42)) = 42
   \<and> convert_img_label (PyStr ''12345678901'') = ''12345678901''"
proof -
  note t = convert_img_label_spec [of "PyStr ''abc''" 42 "PyStr ''12345678901''"]
  have "convert_img_label (PyStr ''abc'')
      = replicate (10 - length (py_str (PyStr ''abc''))) CHR ''0'' @ py_str (PyStr ''abc'')"
    using t by simp
  also have "\<dots> = ''0000000abc''" by code_simp
  finally have 1: "convert_img_label (PyStr ''abc'') = ''0000000abc''" .
  have "convert_img_label (PyInt 42) = replicate (10 - length (str_int 42)) CHR ''0'' @ str_int 42"
    using t by simp
  also have "\<dots> = ''0000000042''" by code_simp
  finally have 2: "convert_img_label (PyInt 42) = ''0000000042''" .
  have h: "(0::int) \<le> 42 \<and> (42::int) < 10 ^ 10" by simp
  from t h have "int (dec_value (convert_img_label (PyInt 42))) = 42" by blast
  then have 3: "dec_value (convert_img_label (PyInt 42)) = 42" by linarith
  have 4: "convert_img_label (PyStr ''12345678901'') = ''12345678901''"
    using t by simp
  from 1 2 3 4 show ?thesis by simp
qed

subsection \<open>gps\_to\_ecef\<close>

lemma wgs84_e2_bounds:
  "0 < 1 - (1 - 1 / 298.257223563) * (1 - 1 / (298.257223563::real))"
  "1 - (1 - 1 / 298.257223563) * (1 - 1 / (298.257223563::real)) < 1"
  by simp_all

lemma radicand_pos:
  fixes e s :: real
  assumes "0 < e" "e < 1" "s \<le> 1"
  shows "0 < 1 - e * s"
proof -
  have "e * s \<le> e * 1" using assms by (intro mult_left_mono) simp_all
  with assms have "e * s < 1" by linarith
  then show ?thesis by simp
qed

lemma wgs84_radicand_pos:
  "0 < 1 - (1 - (1 - 1 / 298.257223563) * (1 - 1 / (298.257223563::real))) * (sin t)\<^sup>2"
  by (rule radicand_pos [OF wgs84_e2_bounds]) (simp add: abs_square_le_1)

text \<open>
  Claim C1 (as amended). For every latitude, longitude and altitude, \<open>gps_to_ecef\<close> returns
  the WGS84 \<open>x\<close> and \<open>y\<close> coordinates of the specification's formulas, computed from a
  positive radicand, and returns the altitude itself as \<open>z\<close>.
\<close>

theorem gps_to_ecef_spec:
  "fst (gps_to_ecef lat lon alt) = fst (wgs84_ecef lat lon alt)
   \<and> fst (snd (gps_to_ecef lat lon alt)) = fst (snd (wgs84_ecef lat lon alt))
   \<and> snd (snd (gps_to_ecef lat lon alt)) = alt
   \<and> 0 < 1 - (1 - (1 - 1 / 298.257223563)\<^sup>2) * (sin (lat * (pi / 180)))\<^sup>2"
  using wgs84_radicand_pos [of "lat * (pi / 180)"]
  by (simp add: gps_to_ecef_def wgs84_ecef_def Let_def power2_eq_square mult.assoc)

text \<open>
  At latitude 0, longitude 0 and altitude 1 the specification's formula gives \<open>z = 0\<close>,
  the function returns \<open>z = 1\<close>.
\<close>

theorem gps_to_ecef_z_counterexample:
  "snd (snd (gps_to_ecef 0 0 1)) = 1 \<and> snd (snd (wgs84_ecef 0 0 1)) = 0
   \<and> gps_to_ecef 0 0 1 \<noteq> wgs84_ecef 0 0 1"
  by (simp add: gps_to_ecef_def wgs84_ecef_def Let_def)

subsection \<open>load\_calib\_file\<close>

lemma prefix_of_longer:
  "prefix xs (ys @ zs) \<Longrightarrow> length xs \<le> length ys \<Longrightarrow> prefix xs ys"
  by (metis prefix_length_prefix prefixI)

lemma find_sub_first:
  assumes "sub \<noteq> []" and "\<not> sublist sub (pre @ butlast sub)"
  shows "find_sub sub (pre @ sub @ rest) = Some (length pre)"
  using assms(2)
proof (induction pre)
  case Nil
  from assms(1) obtain c cs where "sub = c # cs" by (cases sub) auto
  then show ?case by simp
next
  case (Cons a pre)
  from Cons.prems have np: "\<not> prefix sub (a # pre @ butlast sub)"
    and ns: "\<not> sublist sub (pre @ butlast sub)"
    by (simp_all add: sublist_Cons_right)
  have "\<not> prefix sub (a # pre @ sub @ rest)"
  proof
    assume p: "prefix sub (a # pre @ sub @ rest)"
    have "a # pre @ sub @ rest = (a # pre @ butlast sub) @ ([last sub] @ rest)"
      using assms(1) by simp
    with p have "prefix sub ((a # pre @ butlast sub) @ ([last sub] @ rest))" by simp
    moreover have "length sub \<le> length (a # pre @ butlast sub)" by simp
    ultimately have "prefix sub (a # pre @ butlast sub)" by (rule prefix_of_longer)
    with np show False ..
  qed
  with Cons.IH [OF ns] show ?case by simp
qed

lemma str_index_first:
  "sub \<noteq> [] \<Longrightarrow> \<not> sublist sub (pre @ butlast sub) \<Longrightarrow>
   str_index (pre @ sub @ rest) sub = Inr (length pre)"
  by (simp add: str_index_def find_sub_first)

lemma sublist_single: "sublist [c] xs \<longleftrightarrow> c \<in> set xs"
  by (induction xs) (auto simp add: sublist_Cons_right)

lemma str_index_char:
  "c \<notin> set pre \<Longrightarrow> str_index (pre @ c # rest) [c] = Inr (length pre)"
  using str_index_first [of "[c]" pre rest] by (simp add: sublist_single)

lemma split_on_absent: "c \<notin> set xs \<Longrightarrow> split_on c xs = [xs]"
  by (induction xs) auto

lemma sequence_map_Inr: "sequence (map Inr xs) = Inr xs"
  by (induction xs) (auto simp add: ebind_def)

lemma np_mat_row:
  assumes "set txt \<inter> {CHR ''['', CHR '']'', CHR '';'', CHR '',''} = {}"
    and "map lit (split_ws txt) = map Inr row"
  shows "np_mat lit txt = Inr [row]"
proof -
  have f: "filter (\<lambda>c. c \<noteq> CHR ''['' \<and> c \<noteq> CHR '']'') txt = txt"
    using assms(1) by (auto simp add: filter_id_conv)
  have s1: "split_on CHR '';'' txt = [txt]"
    using assms(1) by (intro split_on_absent) auto
  have s2: "split_on CHR '','' txt = [txt]"
    using assms(1) by (intro split_on_absent) auto
  show ?thesis
    by (simp add: np_mat_def Let_def f s1 s2 mat_row_tokens_def assms(2) sequence_map_Inr ncols_def ebind_def)
qed

lemma slice_middle: "slice (xs @ ys @ zs) (length xs) (length xs + length ys) = ys"
  by (simp add: slice_def)

lemma drop_front: "drop (length xs) (xs @ ys) = ys"
  by simp

text \<open>
  Claim C5 (as amended). When the first \<open>R:\<close> of the file's text is followed by nine
  whitespace-separated numbers, then by the text's first \<open>T:\<close>, three
  whitespace-separated numbers on the same line and a newline character,
  \<open>load_calib_file\<close> returns the 4x4 matrix whose top-left 3x3 block is the rotation
  (row-major), whose top-right 3x1 block is the translation and whose bottom row is
  \<open>[0, 0, 0, 1]\<close>.
\<close>

theorem load_calib_file_spec:
  assumes fl: "files (path_join path fname) = Some (TextFile s)"
    and str: "s = pre @ ''R:'' @ rtxt @ ''T:'' @ ttxt @ [CHR 0x0A] @ post"
    and first_R: "\<not> sublist ''R:'' (pre @ ''R'')"
    and first_T: "\<not> sublist ''T:'' (pre @ ''R:'' @ rtxt @ ''T'')"
    and line: "CHR 0x0A \<notin> set ttxt"
    and seps: "(set rtxt \<union> set ttxt) \<inter> {CHR ''['', CHR '']'', CHR '';'', CHR '',''} = {}"
    and rot: "map lit (split_ws rtxt) = map Inr [r0, r1, r2, r3, r4, r5, r6, r7, r8]"
    and tra: "map lit (split_ws ttxt) = map Inr [t0, t1, t2]"
  shows "load_calib_file lit files path fname =
           Inr [[r0, r1, r2, t0], [r3, r4, r5, t1], [r6, r7, r8, t2], [0, 0, 0, 1]]"
proof -
  let ?ir = "length pre"
  let ?it = "length pre + 2 + length rtxt"
  have rd: "read_text files (path_join path fname) = Inr s"
    by (simp add: read_text_def fl)
  have ir: "str_index s ''R:'' = Inr ?ir"
    unfolding str using str_index_first [of "''R:''" pre] first_R by simp
  have "s = (pre @ ''R:'' @ rtxt) @ ''T:'' @ (ttxt @ [CHR 0x0A] @ post)"
    by (simp add: str)
  moreover have "\<not> sublist ''T:'' ((pre @ ''R:'' @ rtxt) @ butlast ''T:'')"
    using first_T by simp
  ultimately have "str_index s ''T:'' = Inr (length (pre @ ''R:'' @ rtxt))"
    using str_index_first [of "''T:''" "pre @ ''R:'' @ rtxt" "ttxt @ [CHR 0x0A] @ post"] by simp
  then have it: "str_index s ''T:'' = Inr ?it" by simp
  have "drop (length (pre @ ''R:'' @ rtxt @ ''T:'')) ((pre @ ''R:'' @ rtxt @ ''T:'') @ (ttxt @ CHR 0x0A # post))
      = ttxt @ CHR 0x0A # post"
    by (rule drop_front)
  then have dr: "drop (?it + 2) s = ttxt @ CHR 0x0A # post"
    by (simp add: str)
  have k: "str_index (drop (?it + 2) s) [CHR 0x0A] = Inr (length ttxt)"
    unfolding dr using line by (rule str_index_char)
  have "slice ((pre @ ''R:'') @ rtxt @ (''T:'' @ ttxt @ [CHR 0x0A] @ post))
          (length (pre @ ''R:'')) (length (pre @ ''R:'') + length rtxt) = rtxt"
    by (rule slice_middle)
  then have sr: "slice s (?ir + 2) ?it = rtxt"
    by (simp add: str)
  have "slice ((pre @ ''R:'' @ rtxt @ ''T:'') @ ttxt @ ([CHR 0x0A] @ post))
          (length (pre @ ''R:'' @ rtxt @ ''T:'')) (length (pre @ ''R:'' @ rtxt @ ''T:'') + length ttxt) = ttxt"
    by (rule slice_middle)
  then have st: "slice s (?it + 2) (?it + 2 + length ttxt) = ttxt"
    by (simp add: str)
  have mr: "np_mat lit rtxt = Inr [[r0, r1, r2, r3, r4, r5, r6, r7, r8]]"
    using seps rot by (intro np_mat_row) auto
  have mt: "np_mat lit ttxt = Inr [[t0, t1, t2]]"
    using seps tra by (intro np_mat_row) auto
  have rr: "reshape 3 3 [[r0, r1, r2, r3, r4, r5, r6, r7, r8]]
      = Inr [[r0, r1, r2], [r3, r4, r5], [r6, r7, r8]]"
    by (simp add: reshape_def numeral_3_eq_3)
  have rt: "reshape 3 1 [[t0, t1, t2]] = Inr [[t0], [t1], [t2]]"
    by (simp add: reshape_def numeral_3_eq_3)
  show ?thesis
    unfolding load_calib_file_def Let_def
    apply (simp only: rd ir it k sr st mr mt rr rt ebind_def sum.case)
    by (simp add: bmat_def is_mat_def)
qed

theorem load_calib_file_spec_witness:
  "load_calib_file int_literal [''/d/calib.txt'' \<mapsto> TextFile
      (''calib_time: 25-May-2012 16:47:16'' @ [CHR 0x0A]
        @ ''R:'' @ '' 0 -1 0 1 0 0 0 0 1'' @ [CHR 0x0A] @ ''T:'' @ '' 5 6 7'' @ [CHR 0x0A] @ ''delta: 0'')]
      ''/d'' ''calib.txt''
   = Inr [[0, -1, 0, 5], [1, 0, 0, 6], [0, 0, 1, 7], [0, 0, 0, 1]]"
proof -
  let ?pre = "''calib_time: 25-May-2012 16:47:16'' @ [CHR 0x0A]"
  let ?rtxt = "'' 0 -1 0 1 0 0 0 0 1'' @ [CHR 0x0A]"
  let ?ttxt = "'' 5 6 7''"
  let ?s = "?pre @ ''R:'' @ ?rtxt @ ''T:'' @ ?ttxt @ [CHR 0x0A] @ ''delta: 0''"
  let ?files = "[''/d/calib.txt'' \<mapsto> TextFile ?s]"
  have 1: "?files (path_join ''/d'' ''calib.txt'') = Some (TextFile ?s)"
    by (simp add: path_join_def)
  have 3: "\<not> sublist ''R:'' (?pre @ ''R'')" by code_simp
  have 4: "\<not> sublist ''T:'' (?pre @ ''R:'' @ ?rtxt @ ''T'')" by code_simp
  have 5: "CHR 0x0A \<notin> set ?ttxt" by simp
  have 6: "(set ?rtxt \<union> set ?ttxt) \<inter> {CHR ''['', CHR '']'', CHR '';'', CHR '',''} = {}"
    by simp
  have 7: "map int_literal (split_ws ?rtxt) = map Inr [0, -1, 0, 1, 0, 0, 0, 0, 1]"
    by code_simp
  have 8: "map int_literal (split_ws ?ttxt) = map Inr [5, 6, 7]"
    by code_simp
  show ?thesis
    using load_calib_file_spec [where files = ?files and path = "''/d''" and fname = "''calib.txt''"
        and s = ?s and pre = ?pre and rtxt = ?rtxt and ttxt = ?ttxt
        and post = "''delta: 0''" and lit = int_literal, OF 1 refl 3 4 5 6 7 8] by simp
qed

text \<open>
  A file whose \<open>T:\<close> line is the last line and has no newline after it: the markers and
  the twelve numbers are there, and the function raises \<open>ValueError\<close>.
\<close>

theorem load_calib_file_no_newline_counterexample:
  "load_calib_file int_literal
     [''/d/calib.txt'' \<mapsto> TextFile (''R: 1 0 0 0 1 0 0 0 1'' @ [CHR 0x0A] @ ''T: 1 2 3'')]
     ''/d'' ''calib.txt'' = Inl ValueError"
  by code_simp

subsection \<open>get\_calibrations\<close>

text \<open>
  Claim C2. The claim and the name \<open>TrImuToCam0\<close> ask for the product
  \<open>Tr(velo->cam) * Tr(imu->velo)\<close>; the function returns
  \<open>Tr(imu->velo) * Tr(velo->cam)\<close>. With an IMU-to-velodyne transform that turns by a
  quarter about \<open>z\<close> and a velodyne-to-camera transform that shifts by one along \<open>x\<close>,
  the two products differ: the returned matrix sends the IMU origin to \<open>(0, 1, 0)\<close>,
  and the camera coordinates of the IMU origin are \<open>(1, 0, 0)\<close>.
\<close>

theorem get_calibrations_order:
  "load_calib_file int_literal
       [''/d/calib_imu_to_velo.txt'' \<mapsto>
          TextFile (''R: 0 -1 0 1 0 0 0 0 1'' @ [CHR 0x0A] @ ''T: 0 0 0'' @ [CHR 0x0A]),
        ''/d/calib_velo_to_cam.txt'' \<mapsto>
          TextFile (''R: 1 0 0 0 1 0 0 0 1'' @ [CHR 0x0A] @ ''T: 1 0 0'' @ [CHR 0x0A])]
       ''/d'' ''calib_imu_to_velo.txt''
     = Inr [[0, -1, 0, 0], [1, 0, 0, 0], [0, 0, 1, 0], [0, 0, 0, 1]]
   \<and> load_calib_file int_literal
       [''/d/calib_imu_to_velo.txt'' \<mapsto>
          TextFile (''R: 0 -1 0 1 0 0 0 0 1'' @ [CHR 0x0A] @ ''T: 0 0 0'' @ [CHR 0x0A]),
        ''/d/calib_velo_to_cam.txt'' \<mapsto>
          TextFile (''R: 1 0 0 0 1 0 0 0 1'' @ [CHR 0x0A] @ ''T: 1 0 0'' @ [CHR 0x0A])]
       ''/d'' ''calib_velo_to_cam.txt''
     = Inr [[1, 0, 0, 1], [0, 1, 0, 0], [0, 0, 1, 0], [0, 0, 0, 1]]
   \<and> get_calibrations int_literal
       [''/d/calib_imu_to_velo.txt'' \<mapsto>
          TextFile (''R: 0 -1 0 1 0 0 0 0 1'' @ [CHR 0x0A] @ ''T: 0 0 0'' @ [CHR 0x0A]),
        ''/d/calib_velo_to_cam.txt'' \<mapsto>
          TextFile (''R: 1 0 0 0 1 0 0 0 1'' @ [CHR 0x0A] @ ''T: 1 0 0'' @ [CHR 0x0A])]
       ''/d''
     = Inr [[0, -1, 0, 0], [1, 0, 0, 1], [0, 0, 1, 0], [0, 0, 0, 1]]
   \<and> mat_mul [[1, 0, 0, 1], [0, 1, 0, 0], [0, 0, 1, 0], [0, 0, 0, 1]]
         [[0, -1, 0, 0], [1, 0, 0, 0], [0, 0, 1, 0], [0, 0, 0, 1]]
     = [[0, -1, 0, 1], [1, 0, 0, 0], [0, 0, 1, 0], [0, 0, 0, 1]]
   \<and> mat_vec [[0, -1, 0, 0], [1, 0, 0, 1], [0, 0, 1, 0], [0, 0, 0, 1]] [0, 0, 0, 1] = [0, 1, 0, 1]
   \<and> mat_vec [[1, 0, 0, 1], [0, 1, 0, 0], [0, 0, 1, 0], [0, 0, 0, 1]]
         (mat_vec [[0, -1, 0, 0], [1, 0, 0, 0], [0, 0, 1, 0], [0, 0, 0, 1]] [0, 0, 0, 1])
     = [1, 0, 0, 1]"
  by code_simp

subsection \<open>get\_depth\<close>

lemma chunks_concat:
  "length rows = r \<Longrightarrow> \<forall>row \<in> set rows. length row = c \<Longrightarrow> chunks r c (concat rows) = rows"
  by (induction rows arbitrary: r) auto

lemma length_concat_rect:
  "\<forall>row \<in> set rows. length row = c \<Longrightarrow> length (concat rows) = length rows * c"
  by (induction rows) auto

lemma concat_pixels: "concat (concat (map (map (\<lambda>p. [f p])) rows)) = map f (concat rows)"
  by (induction rows) (auto simp add: concat_map_singleton)

lemma first_row_length:
  "\<forall>row \<in> set rows. length row = c \<Longrightarrow> concat rows \<noteq> [] \<Longrightarrow>
   (case map (map g) rows of [] \<Rightarrow> 0 | row # _ \<Rightarrow> length row) = c"
  by (cases rows) auto

lemma reshape_rc1_not_assert: "reshape_rc1 r c vals \<noteq> Inl AssertionError"
  by (simp add: reshape_rc1_def)

lemma max_pixel: "vals \<noteq> [] \<Longrightarrow> (255 < Max (set vals)) = (\<exists>v \<in> set vals. (255::int) < v)"
  by (simp add: Max_gr_iff)

lemma max_pixel_le:
  "vals \<noteq> [] \<Longrightarrow> (\<not> 255 < Max (set vals)) = (\<forall>v \<in> set vals. v \<le> (255::int))"
  by (auto simp add: Max_gr_iff not_less)

text \<open>The depth map of a 16-bit grey image with a pixel above 255.\<close>

lemma get_depth_gray16:
  assumes fl: "files (depth_file path sn im i gt) = Some (ImageFile (Gray16 rows))"
    and rect: "\<forall>row \<in> set rows. length row = c"
    and big: "\<exists>p \<in> set (concat rows). 255 < uint p"
  shows "get_depth files path sn im i gt True
           = Inr (map (map (\<lambda>p. [if p = 0 then - 1 else real_of_int (uint p) / 256])) rows)"
proof -
  let ?vals = "map uint (concat rows)"
  have ne: "concat rows \<noteq> []" using big by (metis empty_iff empty_set)
  then have ne': "?vals \<noteq> []" by simp
  have mx: "255 < Max (set ?vals)"
    using big max_pixel [OF ne'] by auto
  have c: "(case map (map (\<lambda>p. [uint p])) rows of [] \<Rightarrow> 0 | row # _ \<Rightarrow> length row) = c"
    using rect ne by (rule first_row_length)
  have len: "length (concat rows) = length rows * c"
    using rect by (rule length_concat_rect)
  have dec: "map (\<lambda>v. if real_of_int v / 256 = 0 then - 1 else real_of_int v / 256) ?vals
      = concat (map (map (\<lambda>p. if p = 0 then - 1 else real_of_int (uint p) / 256)) rows)"
    by (simp add: map_concat comp_def uint_0_iff)
  have rect': "\<forall>row \<in> set (map (map (\<lambda>p. if p = 0 then - 1 else real_of_int (uint p) / 256)) rows).
      length row = c"
    using rect by simp
  have ch: "chunks (length rows) c
      (concat (map (map (\<lambda>p. if p = 0 then - 1 else real_of_int (uint p) / 256)) rows))
      = map (map (\<lambda>p. if p = 0 then - 1 else real_of_int (uint p) / 256)) rows"
    using rect' by (intro chunks_concat) simp_all
  have rs: "reshape_rc1 (length rows) c
      (concat (map (map (\<lambda>p. if p = 0 then - 1 else real_of_int (uint p) / 256)) rows))
      = Inr (map (map (\<lambda>p. [if p = 0 then - 1 else real_of_int (uint p) / 256])) rows)"
    unfolding reshape_rc1_def ch using length_concat_rect [OF rect'] by simp
  show ?thesis
    unfolding get_depth_def open_image_def fl Let_def
    by (simp only: ebind_def sum.case option.case fobj.case np_array_int.simps concat_pixels c
        ne' mx if_True if_False dec length_map rs simp_thms)
qed

text \<open>
  Claim C9. For a loaded image with at least one pixel, \<open>get_depth\<close> raises
  \<open>AssertionError\<close> exactly when no pixel value exceeds 255, whatever the kind of the
  image and the two flags.
\<close>

theorem get_depth_assertion:
  assumes "files (depth_file path sn im i gt) = Some (ImageFile img)"
    and "concat (concat (np_array_int img)) \<noteq> []"
  shows "get_depth files path sn im i gt dm = Inl AssertionError
         \<longleftrightarrow> (\<forall>v \<in> set (concat (concat (np_array_int img))). v \<le> 255)"
proof -
  have m: "(\<not> 255 < Max (set (concat (concat (np_array_int img)))))
      = (\<forall>v \<in> set (concat (concat (np_array_int img))). v \<le> 255)"
    using assms(2) by (rule max_pixel_le)
  have "get_depth files path sn im i gt dm =
      (if \<not> 255 < Max (set (concat (concat (np_array_int img)))) then Inl AssertionError
       else reshape_rc1 (length (np_array_int img))
              (case np_array_int img of [] \<Rightarrow> 0 | row # _ \<Rightarrow> length row)
              (if dm
               then map (\<lambda>v. if real_of_int v / 256 = 0 then - 1 else real_of_int v / 256)
                      (concat (concat (np_array_int img)))
               else map real_of_int (concat (concat (np_array_int img)))))"
    unfolding get_depth_def open_image_def assms(1) Let_def
    using assms(2) by (simp only: ebind_def sum.case option.case fobj.case if_False)
  then show ?thesis
    unfolding m by (simp only: reshape_rc1_not_assert if_False split: if_split) simp
qed

theorem get_depth_assertion_witness:
  "get_depth [''/k/groundtruth_depth/s_groundtruth_depth_0000000005_image_02.png'' \<mapsto>
       ImageFile (Gray16 [[100, 0], [255, 7]])] ''/k'' ''s'' ''image_02'' 5 True False
     = Inl AssertionError
   \<and> get_depth [''/k/groundtruth_depth/s_groundtruth_depth_0000000005_image_02.png'' \<mapsto>
       ImageFile (Gray16 [[100, 0], [256, 7]])] ''/k'' ''s'' ''image_02'' 5 True False
     \<noteq> Inl AssertionError"
proof -
  let ?p = "''/k/groundtruth_depth/s_groundtruth_depth_0000000005_image_02.png''"
  have p: "depth_file ''/k'' ''s'' ''image_02'' 5 True = ?p" by code_simp
  have 1: "get_depth [?p \<mapsto> ImageFile (Gray16 [[100, 0], [255, 7]])] ''/k'' ''s'' ''image_02'' 5 True False
      = Inl AssertionError"
    using get_depth_assertion [of "[?p \<mapsto> ImageFile (Gray16 [[100, 0], [255, 7]])]"
        "''/k''" "''s''" "''image_02''" 5 True "Gray16 [[100, 0], [255, 7]]" False]
    by (simp add: p)
  have 2: "get_depth [?p \<mapsto> ImageFile (Gray16 [[100, 0], [256, 7]])] ''/k'' ''s'' ''image_02'' 5 True False
      \<noteq> Inl AssertionError"
    using get_depth_assertion [of "[?p \<mapsto> ImageFile (Gray16 [[100, 0], [256, 7]])]"
        "''/k''" "''s''" "''image_02''" 5 True "Gray16 [[100, 0], [256, 7]]" False]
    by (simp add: p)
  from 1 2 show ?thesis by simp
qed

text \<open>
  Claim C3 (as amended). For a 16-bit grey depth image of \<open>r\<close> rows and \<open>c\<close> columns in
  which some pixel value exceeds 255, \<open>get_depth\<close> with \<open>to_depth_map=True\<close> returns an
  array of shape \<open>(r, c, 1)\<close> whose entry at a pixel of stored value \<open>v > 0\<close> is
  \<open>v / 256\<close>, and whose entry at a pixel of stored value 0 is \<open>-1\<close>.
\<close>

theorem get_depth_depth_map:
  assumes "files (depth_file path sn im i gt) = Some (ImageFile (Gray16 rows))"
    and "length rows = r"
    and "\<forall>row \<in> set rows. length row = c"
    and "\<exists>p \<in> set (concat rows). 255 < uint p"
  shows "get_depth files path sn im i gt True
           = Inr (map (map (\<lambda>p. [if p = 0 then - 1 else real_of_int (uint p) / 256])) rows)
         \<and> (\<forall>D. get_depth files path sn im i gt True = Inr D \<longrightarrow>
                length D = r
                \<and> (\<forall>y < r. length (D ! y) = c
                     \<and> (\<forall>x < c. length (D ! y ! x) = 1
                          \<and> (0 < uint (rows ! y ! x) \<longrightarrow>
                               D ! y ! x ! 0 = real_of_int (uint (rows ! y ! x)) / 256)
                          \<and> (uint (rows ! y ! x) = 0 \<longrightarrow> D ! y ! x ! 0 = - 1))))"
proof -
  let ?D = "map (map (\<lambda>p. [if p = 0 then - 1 else real_of_int (uint p) / 256])) rows"
  have g: "get_depth files path sn im i gt True = Inr ?D"
    using assms(1,3,4) by (rule get_depth_gray16)
  have s: "\<forall>y < r. length (?D ! y) = c
                \<and> (\<forall>x < c. length (?D ! y ! x) = 1
                     \<and> (0 < uint (rows ! y ! x) \<longrightarrow>
                          ?D ! y ! x ! 0 = real_of_int (uint (rows ! y ! x)) / 256)
                     \<and> (uint (rows ! y ! x) = 0 \<longrightarrow> ?D ! y ! x ! 0 = - 1))"
  proof (intro allI impI)
    fix y assume y: "y < r"
    then have ly: "length (rows ! y) = c" using assms(2,3) by auto
    show "length (?D ! y) = c
                \<and> (\<forall>x < c. length (?D ! y ! x) = 1
                     \<and> (0 < uint (rows ! y ! x) \<longrightarrow>
                          ?D ! y ! x ! 0 = real_of_int (uint (rows ! y ! x)) / 256)
                     \<and> (uint (rows ! y ! x) = 0 \<longrightarrow> ?D ! y ! x ! 0 = - 1))"
      using y ly assms(2) by (auto simp add: uint_0_iff)
  qed
  have l: "length ?D = r" using assms(2) by simp
  show ?thesis
  proof (rule conjI, goal_cases)
    case 1
    show ?case by (rule g)
  next
    case 2
    show ?case
    proof (intro allI impI)
    fix D assume "get_depth files path sn im i gt True = Inr D"
    with g have D: "D = ?D" by simp
    from l s show "length D = r
                \<and> (\<forall>y < r. length (D ! y) = c
                     \<and> (\<forall>x < c. length (D ! y ! x) = 1
                          \<and> (0 < uint (rows ! y ! x) \<longrightarrow>
                               D ! y ! x ! 0 = real_of_int (uint (rows ! y ! x)) / 256)
                          \<and> (uint (rows ! y ! x) = 0 \<longrightarrow> D ! y ! x ! 0 = - 1)))"
      unfolding D by (rule conjI)
    qed
  qed
qed

theorem get_depth_depth_map_witness:
  "get_depth [''/k/velodyne_raw/s_velodyne_raw_0000000012_image_03.png'' \<mapsto>
       ImageFile (Gray16 [[0, 512, 64], [256, 1, 65535]])] ''/k'' ''s'' ''image_03'' 12 False True
     = Inr [[[- 1], [2], [1 / 4]], [[1], [1 / 256], [65535 / 256]]]"
proof -
  let ?p = "''/k/velodyne_raw/s_velodyne_raw_0000000012_image_03.png''"
  let ?rows = "[[0, 512, 64], [256, 1, 65535]] :: 16 word list list"
  have p: "depth_file ''/k'' ''s'' ''image_03'' 12 False = ?p" by code_simp
  have 1: "[?p \<mapsto> ImageFile (Gray16 ?rows)] (depth_file ''/k'' ''s'' ''image_03'' 12 False)
      = Some (ImageFile (Gray16 ?rows))"
    by (simp add: p)
  have 2: "length ?rows = 2" by simp
  have 3: "\<forall>row \<in> set ?rows. length row = 3" by simp
  have 4: "\<exists>p \<in> set (concat ?rows). 255 < uint p" by simp
  have "get_depth [?p \<mapsto> ImageFile (Gray16 ?rows)] ''/k'' ''s'' ''image_03'' 12 False True
      = Inr (map (map (\<lambda>p. [if p = 0 then - 1 else real_of_int (uint p) / 256])) ?rows)"
    using get_depth_depth_map [where files = "[?p \<mapsto> ImageFile (Gray16 ?rows)]" and path = "''/k''"
        and sn = "''s''" and im = "''image_03''" and i = 12 and gt = False and rows = ?rows
        and r = 2 and c = 3, OF 1 2 3 4]
    by (rule conjunct1)
  also have "\<dots> = Inr [[[- 1], [2], [1 / 4]], [[1], [1 / 256], [65535 / 256]]]"
    by simp
  finally show ?thesis .
qed

text \<open>
  A 16-bit grey depth image whose only pixel has the value 100, a depth of 100/256
  metres: the function raises \<open>AssertionError\<close> and returns no depth.
\<close>

theorem get_depth_small_counterexample:
  "get_depth [''/k/groundtruth_depth/s_groundtruth_depth_0000000000_image_02.png'' \<mapsto>
       ImageFile (Gray16 [[100]])] ''/k'' ''s'' ''image_02'' 0 True True
     = Inl AssertionError"
  by code_simp

end
